theory Spec2Isabelle
  imports Complex_Main
begin

section \<open>Object detection on the Raspberry Pi camera: a model of detect\_picamera.py\<close>

text \<open>
  The definitions below follow
  \<^verbatim>\<open>lite/examples/object_detection/raspberry_pi/detect_picamera.py\<close>
  function by function and keep its names.

  Conventions of the model:
  \<^item> a raised Python exception is the \<open>Inl\<close> branch of a sum, a returned value the
    \<open>Inr\<close> branch; a function that falls off its end returns \<open>None\<close>;
  \<^item> Python and numpy floating-point numbers are modelled by \<open>real\<close> with exact
    arithmetic: the model says which operands are compared or divided and which branch
    is taken, not how the result is rounded, and it has no NaN and no infinity;
  \<^item> a Python \<open>str\<close> is a \<open>string\<close> whose characters are the code points below
    256; the predicates \<open>isspace\<close> and \<open>isdigit\<close> are Python's on that range;
  \<^item> the interpreter, the camera, the annotator and the MQTT client are libraries:
    what they return is an input of the model, what the program asks of them is
    recorded as an event.
\<close>

subsection \<open>Exceptions\<close>

datatype py_error =
  IOError | ValueError | IndexError | KeyError | ZeroDivisionError | TypeError

text \<open>Sequencing of two steps, the first of which may raise.\<close>

definition bind_sum :: "'e + 'a \<Rightarrow> ('a \<Rightarrow> 'e + 'b) \<Rightarrow> 'e + 'b" where
  "bind_sum m f = (case m of Inl e \<Rightarrow> Inl e | Inr v \<Rightarrow> f v)"

subsection \<open>Strings: \<open>str.strip\<close>, \<open>str.isdigit\<close>, \<open>re.split\<close>, \<open>int\<close>\<close>

text \<open>\<open>str.isspace\<close> on one character: TAB, LF, VT, FF, CR, FS, GS, RS, US, space,
  NEL (133) and the no-break space (160).\<close>

definition isspace :: "char \<Rightarrow> bool" where
  "isspace c = (let n = (of_char c :: nat) in
     (9 \<le> n \<and> n \<le> 13) \<or> (28 \<le> n \<and> n \<le> 32) \<or> n = 133 \<or> n = 160)"

text \<open>The decimal digits \<open>0\<close> to \<open>9\<close>.\<close>

definition ascii_digit :: "char \<Rightarrow> bool" where
  "ascii_digit c = (let n = (of_char c :: nat) in 48 \<le> n \<and> n \<le> 57)"

text \<open>\<open>str.isdigit\<close> on one character: the decimal digits and the superscript digits
  two (178), three (179) and one (185).\<close>

definition isdigit_char :: "char \<Rightarrow> bool" where
  "isdigit_char c = (let n = (of_char c :: nat) in
     (48 \<le> n \<and> n \<le> 57) \<or> n = 178 \<or> n = 179 \<or> n = 185)"

text \<open>\<open>s.isdigit()\<close>: at least one character, and all of them digits.\<close>

definition isdigit :: "string \<Rightarrow> bool" where
  "isdigit s = (s \<noteq> [] \<and> list_all isdigit_char s)"

text \<open>\<open>s.strip()\<close>: leading and trailing whitespace removed.\<close>

definition strip :: "string \<Rightarrow> string" where
  "strip s = rev (dropWhile isspace (rev (dropWhile isspace s)))"

text \<open>The character class \<^verbatim>\<open>[:\s]\<close>.\<close>

definition is_sep :: "char \<Rightarrow> bool" where
  "is_sep c = (c = CHR '':'' \<or> isspace c)"

text \<open>\<^verbatim>\<open>re.split(r'[:\s]+', s, maxsplit=1)\<close>: the text before the leftmost separator
  and the text after the whole run of separators that starts there, or \<open>s\<close> alone if
  it holds no separator.\<close>

definition re_split :: "string \<Rightarrow> string list" where
  "re_split s =
     (let a = takeWhile (\<lambda>c. \<not> is_sep c) s;
          r = dropWhile (\<lambda>c. \<not> is_sep c) s
      in if r = [] then [a] else [a, dropWhile is_sep r])"

text \<open>The value of a string of decimal digits.\<close>

definition digits_value :: "string \<Rightarrow> nat" where
  "digits_value s = foldl (\<lambda>n c. 10 * n + (of_char c - 48)) 0 s"

text \<open>\<open>int(s)\<close> on the strings \<open>load_labels\<close> passes to it, which are non-empty and
  hold digits only: the decimal value, and \<open>ValueError\<close> for a string with a superscript
  digit, which \<open>isdigit()\<close> accepts and \<open>int\<close> does not.\<close>

definition int_str :: "string \<Rightarrow> py_error + nat" where
  "int_str s =
     (if s \<noteq> [] \<and> list_all ascii_digit s then Inr (digits_value s) else Inl ValueError)"

subsection \<open>\<open>load_labels\<close>\<close>

text \<open>The body of the loop for one line: the key and the name it stores.\<close>

definition label_entry :: "nat \<Rightarrow> string \<Rightarrow> py_error + (nat \<times> string)" where
  "label_entry row_number content =
     (let pair = re_split (strip content) in
      if length pair = 2 \<and> isdigit (strip (pair ! 0))
      then bind_sum (int_str (pair ! 0)) (\<lambda>k. Inr (k, strip (pair ! 1)))
      else Inr (row_number, strip (pair ! 0)))"

text \<open>The loop over \<open>enumerate(lines)\<close>, with the dictionary \<open>labels\<close> as the state.\<close>

fun load_labels_loop ::
  "(nat \<rightharpoonup> string) \<Rightarrow> (nat \<times> string) list \<Rightarrow> py_error + (nat \<rightharpoonup> string)" where
  "load_labels_loop labels [] = Inr labels"
| "load_labels_loop labels ((row_number, content) # rest) =
     bind_sum (label_entry row_number content)
       (\<lambda>(k, v). load_labels_loop (labels(k \<mapsto> v)) rest)"

text \<open>\<open>load_labels\<close>, on the lines \<open>f.readlines()\<close> returned.\<close>

definition load_labels :: "string list \<Rightarrow> py_error + (nat \<rightharpoonup> string)" where
  "load_labels lines = load_labels_loop Map.empty (enumerate 0 lines)"

subsection \<open>The model's output tensors and \<open>get_output_tensor\<close>\<close>

text \<open>The four output tensors of one inference pass, as the interpreter holds them in
  the slots 0 to 3: the boxes, a tensor of the shape \<open>[1, N, 4]\<close> whose rows are
  \<open>(ymin, xmin, ymax, xmax)\<close>; the class ids and the scores, of the shape \<open>[1, N]\<close>;
  and the detection count, of the shape \<open>[1]\<close>. All four hold floating-point numbers.
  The first axis is the batch of one image and is not written.\<close>

record model_output =
  boxes :: "(real \<times> real \<times> real \<times> real) list"
  classes :: "real list"
  scores :: "real list"
  count :: real

text \<open>A numpy array without an axis (one number) or with one axis.\<close>

datatype ndarray = Scalar real | Vector "real list"

text \<open>A numpy array of numbers with one axis or with two, and likewise the Python list
  that \<open>tolist()\<close> makes of it: a list of numbers, or a list of rows.\<close>

datatype nested = Flat "real list" | Rows "real list list"

text \<open>\<open>get_output_tensor\<close> returns \<open>np.squeeze\<close> of the tensor in the slot, and
  \<open>np.squeeze\<close> removes every axis of length one. That is the batch axis, and it is
  also the axis of the entries when the tensor holds one entry: a tensor \<open>[1]\<close> or
  \<open>[1, 1]\<close> becomes a number and a tensor \<open>[1, 1, 4]\<close> becomes one row of four
  numbers.\<close>

definition squeeze_vector :: "real list \<Rightarrow> ndarray" where
  "squeeze_vector xs = (case xs of [x] \<Rightarrow> Scalar x | _ \<Rightarrow> Vector xs)"

definition squeeze_boxes :: "(real \<times> real \<times> real \<times> real) list \<Rightarrow> nested" where
  "squeeze_boxes bs =
     (case bs of
        [(ymin, xmin, ymax, xmax)] \<Rightarrow> Flat [ymin, xmin, ymax, xmax]
      | _ \<Rightarrow> Rows (map (\<lambda>(ymin, xmin, ymax, xmax). [ymin, xmin, ymax, xmax]) bs))"

text \<open>\<open>get_output_tensor(interpreter, index)\<close> for the indices 0, 1, 2 and 3.\<close>

definition get_output_tensor_0 :: "model_output \<Rightarrow> nested" where
  "get_output_tensor_0 out = squeeze_boxes (boxes out)"

definition get_output_tensor_1 :: "model_output \<Rightarrow> ndarray" where
  "get_output_tensor_1 out = squeeze_vector (classes out)"

definition get_output_tensor_2 :: "model_output \<Rightarrow> ndarray" where
  "get_output_tensor_2 out = squeeze_vector (scores out)"

definition get_output_tensor_3 :: "model_output \<Rightarrow> real" where
  "get_output_tensor_3 out = count out"

text \<open>\<open>xs[i]\<close> on a list, for an index that is not negative: \<open>IndexError\<close> past the
  end.\<close>

definition getitem :: "'a list \<Rightarrow> nat \<Rightarrow> py_error + 'a" where
  "getitem xs i = (if i < length xs then Inr (xs ! i) else Inl IndexError)"

text \<open>\<open>a[i]\<close> on a numpy array, for an index that is not negative: an array without an
  axis cannot be indexed (\<open>IndexError\<close>), an array with one axis gives a number, an
  array with two axes gives a row.\<close>

definition ndarray_getitem :: "ndarray \<Rightarrow> nat \<Rightarrow> py_error + real" where
  "ndarray_getitem a i = (case a of Scalar x \<Rightarrow> Inl IndexError | Vector xs \<Rightarrow> getitem xs i)"

definition nested_getitem :: "nested \<Rightarrow> nat \<Rightarrow> py_error + ndarray" where
  "nested_getitem a i =
     (case a of
        Flat xs \<Rightarrow> bind_sum (getitem xs i) (\<lambda>x. Inr (Scalar x))
      | Rows rs \<Rightarrow> bind_sum (getitem rs i) (\<lambda>r. Inr (Vector r)))"

text \<open>\<open>int(x)\<close> on a floating-point number: truncation towards zero.\<close>

definition int_float :: "real \<Rightarrow> int" where
  "int_float x = (if 0 \<le> x then \<lfloor>x\<rfloor> else \<lceil>x\<rceil>)"

subsection \<open>\<open>detect_objects\<close>\<close>

text \<open>One entry of \<open>results\<close>: the dictionary with the keys \<open>bounding_box\<close>,
  \<open>class_id\<close> and \<open>score\<close>. The box is \<open>boxes[i]\<close>, a row of the boxes array, or one
  number of it when the array has a single axis.\<close>

record detection =
  bounding_box :: ndarray
  class_id :: real
  score :: real

text \<open>The loop \<open>for i in range(count)\<close> of \<open>detect_objects\<close>, over the arrays
  \<open>get_output_tensor\<close> returned; the score is read first, the box and the class only
  for an entry that clears the threshold.\<close>

fun detect_loop ::
  "model_output \<Rightarrow> real \<Rightarrow> nat list \<Rightarrow> detection list \<Rightarrow> py_error + detection list" where
  "detect_loop out threshold [] results = Inr results"
| "detect_loop out threshold (i # rest) results =
     bind_sum (ndarray_getitem (get_output_tensor_2 out) i) (\<lambda>s.
       if s \<ge> threshold
       then bind_sum (nested_getitem (get_output_tensor_0 out) i) (\<lambda>b.
            bind_sum (ndarray_getitem (get_output_tensor_1 out) i) (\<lambda>c.
              detect_loop out threshold rest
                (results @ [\<lparr>bounding_box = b, class_id = c, score = s\<rparr>])))
       else detect_loop out threshold rest results)"

text \<open>\<open>detect_objects\<close>, on the tensors the interpreter produced for the image.
  \<open>range(count)\<close> is empty for a count that is not positive.\<close>

definition detect_objects :: "model_output \<Rightarrow> real \<Rightarrow> py_error + detection list" where
  "detect_objects out threshold =
     (let count = int_float (get_output_tensor_3 out)
      in detect_loop out threshold [0 ..< nat count] [])"

subsection \<open>\<open>annotate_objects\<close>\<close>

definition CAMERA_WIDTH :: real where "CAMERA_WIDTH = 640"
definition CAMERA_HEIGHT :: real where "CAMERA_HEIGHT = 480"

text \<open>\<open>labels[k]\<close> for a floating-point key \<open>k\<close>: a float equals, and hashes as, the
  integer of the same value, so the entry of the key \<open>n\<close> is found exactly when
  \<open>k\<close> is the number \<open>n\<close>; \<open>KeyError\<close> otherwise.\<close>

definition labels_getitem :: "(nat \<rightharpoonup> string) \<Rightarrow> real \<Rightarrow> py_error + string" where
  "labels_getitem labels k =
     (if 0 \<le> k \<and> of_int \<lfloor>k\<rfloor> = k
      then (case labels (nat \<lfloor>k\<rfloor>) of None \<Rightarrow> Inl KeyError | Some v \<Rightarrow> Inr v)
      else Inl KeyError)"

text \<open>What the annotator is asked to draw for one detection: the box in pixels
  \<open>[xmin, ymin, xmax, ymax]\<close>, and at \<open>[xmin, ymin]\<close> the label and the score.\<close>

record overlay =
  pixel_box :: "int list"
  text_at :: "int list"
  text_label :: string
  text_score :: real

text \<open>Unpacking a box into four names raises \<open>TypeError\<close> for a box that is one
  number, and \<open>ValueError\<close> for a row that has not four coordinates.\<close>

fun annotate_objects ::
  "detection list \<Rightarrow> (nat \<rightharpoonup> string) \<Rightarrow> py_error + overlay list" where
  "annotate_objects [] labels = Inr []"
| "annotate_objects (obj # rest) labels =
     (case bounding_box obj of
        Scalar x \<Rightarrow> Inl TypeError
      | Vector [ymin, xmin, ymax, xmax] \<Rightarrow>
          (let xmin' = int_float (xmin * CAMERA_WIDTH);
               xmax' = int_float (xmax * CAMERA_WIDTH);
               ymin' = int_float (ymin * CAMERA_HEIGHT);
               ymax' = int_float (ymax * CAMERA_HEIGHT)
           in bind_sum (labels_getitem labels (class_id obj)) (\<lambda>name.
              bind_sum (annotate_objects rest labels) (\<lambda>drawn.
                Inr (\<lparr>pixel_box = [xmin', ymin', xmax', ymax'], text_at = [xmin', ymin'],
                      text_label = name, text_score = score obj\<rparr> # drawn))))
      | _ \<Rightarrow> Inl ValueError)"

subsection \<open>\<open>findPoints\<close>, \<open>findLabels\<close>, \<open>findScore\<close>\<close>

text \<open>\<open>x / y\<close> on floating-point numbers raises \<open>ZeroDivisionError\<close> for a zero
  divisor.\<close>

definition truediv :: "real \<Rightarrow> real \<Rightarrow> py_error + real" where
  "truediv a b = (if b = 0 then Inl ZeroDivisionError else Inr (a / b))"

text \<open>Each of the three loops returns in its first round, and the function returns
  \<open>None\<close> when the list is empty. \<open>findPoints\<close> is given a Python list: on a list
  of rows it indexes the first row; on a list of numbers \<open>coordinate[0]\<close> indexes a
  number and raises \<open>TypeError\<close>.\<close>

fun findPoints :: "nested \<Rightarrow> py_error + real list option" where
  "findPoints (Flat []) = Inr None"
| "findPoints (Flat (coordinate # rest)) = Inl TypeError"
| "findPoints (Rows []) = Inr None"
| "findPoints (Rows (coordinate # rest)) =
     bind_sum (getitem coordinate 0) (\<lambda>ymin.
     bind_sum (getitem coordinate 1) (\<lambda>xmin.
     bind_sum (getitem coordinate 2) (\<lambda>ymax.
     bind_sum (getitem coordinate 3) (\<lambda>xmax.
     bind_sum (truediv xmin xmax) (\<lambda>x.
     bind_sum (truediv ymin ymax) (\<lambda>y.
       Inr (Some [x, y])))))))"

fun findLabels :: "detection list \<Rightarrow> (nat \<rightharpoonup> string) \<Rightarrow> py_error + string option" where
  "findLabels [] labels = Inr None"
| "findLabels (result # rest) labels =
     bind_sum (labels_getitem labels (class_id result)) (\<lambda>label. Inr (Some label))"

fun findScore :: "detection list \<Rightarrow> (nat \<rightharpoonup> string) \<Rightarrow> real option" where
  "findScore [] labels = None"
| "findScore (result # rest) labels = Some (score result)"

subsection \<open>One round of the frame loop\<close>

text \<open>The dictionary \<open>post\<close>, which \<open>json.dumps\<close> turns into the published text.\<close>

record post =
  Sensor_Name :: string
  Score :: string
  Coordinates :: "real list option"
  Class_ID :: string

text \<open>\<open>str(label)\<close>, for a label that is a string or \<open>None\<close>.\<close>

definition str_label :: "string option \<Rightarrow> string" where
  "str_label label = (case label of None \<Rightarrow> ''None'' | Some s \<Rightarrow> s)"

text \<open>\<open>str(score)\<close>, for a score that is a number or \<open>None\<close>. The decimal text of a
  floating-point number is the library's: \<open>str_float\<close> stands for it.\<close>

definition str_score :: "(real \<Rightarrow> string) \<Rightarrow> real option \<Rightarrow> string" where
  "str_score str_float s = (case s of None \<Rightarrow> ''None'' | Some x \<Rightarrow> str_float x)"

text \<open>\<open>a.tolist()\<close> keeps the numbers and the nesting of the array.\<close>

definition tolist :: "nested \<Rightarrow> nested" where
  "tolist a = a"

text \<open>The body of the loop over the captured frames, from \<open>detect_objects\<close> to the
  dictionary handed to \<open>json.dumps\<close> and \<open>publish\<close>. \<open>out\<close> holds the tensors of
  the inference pass on this frame; \<open>coordinates\<close> is the list made of the whole boxes
  array, which \<open>get_output_tensor\<close> returns again after \<open>detect_objects\<close>.\<close>

definition frame_iteration ::
  "(real \<Rightarrow> string) \<Rightarrow> (nat \<rightharpoonup> string) \<Rightarrow> real \<Rightarrow> model_output \<Rightarrow> py_error + post" where
  "frame_iteration str_float labels threshold out =
     bind_sum (detect_objects out threshold) (\<lambda>results.
     bind_sum (annotate_objects results labels) (\<lambda>drawn.
     let coordinates = tolist (get_output_tensor_0 out) in
     bind_sum (findPoints coordinates) (\<lambda>point.
     bind_sum (findLabels results labels) (\<lambda>label.
     let score = findScore results labels in
       Inr \<lparr>Sensor_Name = ''CameraPi'',
            Score = str_score str_float score,
            Coordinates = point,
            Class_ID = str_label label\<rparr>))))"

subsection \<open>The frame loop\<close>

text \<open>What the program asks of the outside, in order.\<close>

datatype event =
    ParserError string
  | CreateClient string
  | ConfigureEndpoint string "int option"
  | ConfigureCredentials string "string option" "string option"
  | ConfigureOfflinePublishQueueing int
  | ConfigureDrainingFrequency nat
  | ConfigureConnectDisconnectTimeout nat
  | ConfigureMQTTOperationTimeout nat
  | Connect
  | OpenCamera
  | Publish string post nat
  | StopPreview

text \<open>How the process ends: \<open>parser.error\<close> and \<open>exit\<close> leave with a status, an
  exception nobody catches ends the process, and \<open>main\<close> returns when the stream of
  frames ends.\<close>

datatype outcome = Exit nat | Raised py_error | Returned

text \<open>The loop over the captured frames: each round publishes its message on the
  topic with the quality of service 1, then sleeps one second; an exception leaves the
  loop.\<close>

fun frame_loop ::
  "(real \<Rightarrow> string) \<Rightarrow> (nat \<rightharpoonup> string) \<Rightarrow> real \<Rightarrow> string \<Rightarrow> model_output list
     \<Rightarrow> event list \<times> outcome" where
  "frame_loop str_float labels threshold topic [] = ([], Returned)"
| "frame_loop str_float labels threshold topic (out # rest) =
     (case frame_iteration str_float labels threshold out of
        Inl e \<Rightarrow> ([], Raised e)
      | Inr p \<Rightarrow>
          (let (evs, r) = frame_loop str_float labels threshold topic rest
           in (Publish topic p 1 # evs, r)))"

subsection \<open>\<open>main\<close>\<close>

text \<open>The parsed command line, with the \<open>dest\<close> names of the parser. An option
  without a default that was not given is \<open>None\<close>.\<close>

record args =
  model :: string
  labels :: string
  threshold :: real
  host :: string
  rootCAPath :: string
  certificatePath :: "string option"
  privateKeyPath :: "string option"
  port :: "int option"
  useWebsocket :: bool
  clientId :: string
  topic :: string
  mode :: string
  message :: string
  dbMongo :: string

text \<open>What the libraries answer: the lines of the labels file or the exception of
  \<open>open\<close>, the interpreter loading the model, the MQTT client connecting, the camera
  opening, and the output tensors of the frames captured before the stream ends.\<close>

record env =
  labels_file :: "py_error + string list"
  interpreter :: "py_error + unit"
  connect :: "py_error + unit"
  camera :: "py_error + unit"
  frames :: "model_output list"

definition AllowedActions :: "string list" where
  "AllowedActions = [''publish'']"

text \<open>Truth values of Python: \<open>None\<close> and the empty string are false, \<open>None\<close> and
  \<open>0\<close> are false.\<close>

definition truthy_str :: "string option \<Rightarrow> bool" where
  "truthy_str p = (case p of None \<Rightarrow> False | Some s \<Rightarrow> s \<noteq> [])"

definition truthy_int :: "int option \<Rightarrow> bool" where
  "truthy_int p = (case p of None \<Rightarrow> False | Some n \<Rightarrow> n \<noteq> 0)"

text \<open>The three checks of \<open>main\<close>, in its order; each calls \<open>parser.error\<close>, which
  prints the message and leaves with status 2. The result is the message of the first
  check that fires.\<close>

definition validate :: "args \<Rightarrow> string option" where
  "validate a =
     (if mode a \<notin> set AllowedActions
      then Some (''Unknown --mode option '' @ mode a @ ''. Must be one of ['' @
                 [CHR 0x27] @ ''publish'' @ [CHR 0x27] @ '']'')
      else if useWebsocket a \<and> truthy_str (certificatePath a) \<and> truthy_str (privateKeyPath a)
      then Some ''X.509 cert authentication and WebSocket are mutual exclusive. Please pick one.''
      else if \<not> useWebsocket a \<and>
              (\<not> truthy_str (certificatePath a) \<or> \<not> truthy_str (privateKeyPath a))
      then Some ''Missing credentials for authentication.''
      else None)"

text \<open>The port defaults: \<open>port = args.port\<close>, then the two conditional
  assignments.\<close>

definition port_defaults :: "args \<Rightarrow> int option" where
  "port_defaults a =
     (let port1 = port a;
          port2 = (if useWebsocket a \<and> \<not> truthy_int (port a) then Some 443 else port1);
          port3 = (if \<not> useWebsocket a \<and> \<not> truthy_int (port a) then Some 8883 else port2)
      in port3)"

text \<open>\<open>main\<close>: the labels and the model are loaded first, then the command line is
  checked, then the client is configured and connected, then the camera is opened and
  the frames are processed; \<open>stop_preview\<close> runs in the \<open>finally\<close> clause.\<close>

definition main :: "(real \<Rightarrow> string) \<Rightarrow> env \<Rightarrow> args \<Rightarrow> event list \<times> outcome" where
  "main str_float env a =
     (case bind_sum (labels_file env) load_labels of
        Inl e \<Rightarrow> ([], Raised e)
      | Inr label_table \<Rightarrow>
     (case interpreter env of
        Inl e \<Rightarrow> ([], Raised e)
      | Inr _ \<Rightarrow>
     (case validate a of
        Some msg \<Rightarrow> ([ParserError msg], Exit 2)
      | None \<Rightarrow>
     (let configured =
            [CreateClient ''rpi-camera'',
             ConfigureEndpoint (host a) (port_defaults a),
             ConfigureCredentials (rootCAPath a) (privateKeyPath a) (certificatePath a),
             ConfigureOfflinePublishQueueing (- 1),
             ConfigureDrainingFrequency 2,
             ConfigureConnectDisconnectTimeout 10,
             ConfigureMQTTOperationTimeout 5,
             Connect]
      in case connect env of
        Inl e \<Rightarrow> (configured, Raised e)
      | Inr _ \<Rightarrow>
     (case camera env of
        Inl e \<Rightarrow> (configured @ [OpenCamera], Raised e)
      | Inr _ \<Rightarrow>
     (let (evs, r) = frame_loop str_float label_table (threshold a) (topic a) (frames env)
      in (configured @ [OpenCamera] @ evs @ [StopPreview], r)))))))"


subsection \<open>The parsing rule of the specification, and sample inputs\<close>

text \<open>The rule for one line as the specification words it: split the trimmed line at the
  first run of colons and whitespace; if the first field is a pure non-negative integer,
  it is the index and the remainder is the name; otherwise the line number is the index
  and the whole trimmed line is the name.\<close>

definition spec_label_entry :: "nat \<Rightarrow> string \<Rightarrow> nat \<times> string" where
  "spec_label_entry row_number content =
     (let trimmed = strip content;
          first_field = takeWhile (\<lambda>c. \<not> is_sep c) trimmed;
          remainder = dropWhile is_sep (dropWhile (\<lambda>c. \<not> is_sep c) trimmed)
      in if first_field \<noteq> [] \<and> list_all ascii_digit first_field
         then (digits_value first_field, remainder)
         else (row_number, trimmed))"

text \<open>The table of the specification: the entries of the lines in order, a later entry
  replacing an earlier one with the same index.\<close>

definition spec_load_labels :: "string list \<Rightarrow> (nat \<rightharpoonup> string)" where
  "spec_load_labels lines =
     map_of (rev (map (\<lambda>(i, c). spec_label_entry i c) (enumerate 0 lines)))"

text \<open>The command line with the five required options given and every other option
  left at the default of its \<open>add_argument\<close>.\<close>

definition parser_defaults :: "string \<Rightarrow> string \<Rightarrow> string \<Rightarrow> string \<Rightarrow> string \<Rightarrow> args" where
  "parser_defaults m l e r d =
     \<lparr>model = m, labels = l, threshold = 0.4, host = e, rootCAPath = r,
      certificatePath = None, privateKeyPath = None, port = None, useWebsocket = False,
      clientId = ''sensorPub'', topic = ''home'', mode = ''publish'',
      message = ''Hello World!'', dbMongo = d\<rparr>"

text \<open>An environment in which every library call succeeds: a labels file of two lines,
  and no frame captured.\<close>

definition sample_env :: env where
  "sample_env = \<lparr>labels_file = Inr [''0 person'', ''1 cat''], interpreter = Inr (),
                  connect = Inr (), camera = Inr (), frames = []\<rparr>"


section \<open>Properties\<close>

subsection \<open>Label parsing\<close>

lemma ascii_digit_not_sep: "ascii_digit c \<Longrightarrow> \<not> is_sep c"
  by (auto simp: ascii_digit_def is_sep_def isspace_def Let_def)

lemma ascii_digit_isdigit: "ascii_digit c \<Longrightarrow> isdigit_char c"
  by (simp add: ascii_digit_def isdigit_char_def Let_def)

lemma isspace_is_sep: "isspace c \<Longrightarrow> is_sep c"
  by (simp add: is_sep_def)

lemma strip_last: "strip s \<noteq> [] \<Longrightarrow> \<not> isspace (last (strip s))"
  unfolding strip_def using hd_dropWhile [of isspace "rev (dropWhile isspace s)"]
  by (simp add: last_rev)

lemma strip_id:
  assumes "x = [] \<or> (\<not> isspace (hd x) \<and> \<not> isspace (last x))"
  shows "strip x = x"
proof (cases "x = []")
  case True
  then show ?thesis by (simp add: strip_def)
next
  case False
  with assms have h: "\<not> isspace (hd x)" and l: "\<not> isspace (last x)" by simp_all
  from h have "dropWhile isspace x = x" by (simp add: dropWhile_eq_self_iff)
  moreover from l have "dropWhile isspace (rev x) = rev x"
    by (simp add: dropWhile_eq_self_iff hd_rev)
  ultimately show ?thesis by (simp add: strip_def)
qed

lemma re_split_two:
  assumes d: "list_all (\<lambda>c. \<not> is_sep c) d" and s: "s \<noteq> []" "list_all is_sep s"
    and r: "r = [] \<or> \<not> is_sep (hd r)"
  shows "re_split (d @ s @ r) = [d, r]"
proof -
  from s obtain c s' where cs: "s = c # s'" "is_sep c" by (cases s) auto
  from d have d': "\<forall>x \<in> set d. \<not> is_sep x" by (simp add: list_all_iff)
  have t: "takeWhile (\<lambda>c. \<not> is_sep c) (d @ s @ r) = d"
    using d' cs by simp
  have dr: "dropWhile (\<lambda>c. \<not> is_sep c) (d @ s @ r) = s @ r"
    using d' cs by simp
  from s have "\<forall>x \<in> set s. is_sep x" by (simp add: list_all_iff)
  then have "dropWhile is_sep (s @ r) = dropWhile is_sep r" by simp
  also from r have "\<dots> = r" by (simp add: dropWhile_eq_self_iff)
  finally have "dropWhile is_sep (s @ r) = r" .
  with t dr s show ?thesis by (simp add: re_split_def Let_def)
qed

lemma re_split_one:
  assumes "list_all (\<lambda>c. \<not> is_sep c) t"
  shows "re_split t = [t]"
  using assms by (simp add: re_split_def Let_def list_all_iff)

lemma label_entry_indexed:
  assumes t: "strip content = d @ s @ r"
    and d: "d \<noteq> []" "list_all ascii_digit d"
    and s: "s \<noteq> []" "list_all is_sep s"
    and r: "r = [] \<or> \<not> is_sep (hd r)"
  shows "label_entry row content = Inr (digits_value d, r)"
proof -
  from d have dn: "list_all (\<lambda>c. \<not> is_sep c) d"
    by (auto simp: list_all_iff ascii_digit_not_sep)
  have split: "re_split (strip content) = [d, r]"
    unfolding t using dn s r by (rule re_split_two)
  from d have hd_d: "\<not> isspace (hd d)" and last_d: "\<not> isspace (last d)"
    using dn by (auto simp: list_all_iff dest: isspace_is_sep)
  then have sd: "strip d = d" by (simp add: strip_id)
  from d have dig: "isdigit d"
    by (auto simp: isdigit_def list_all_iff ascii_digit_isdigit)
  have sr: "strip r = r"
  proof (cases "r = []")
    case True
    then show ?thesis by (simp add: strip_def)
  next
    case False
    with r have "\<not> isspace (hd r)" by (auto dest: isspace_is_sep)
    moreover from False have "last r = last (strip content)" by (simp add: t)
    moreover from False have "strip content \<noteq> []" by (simp add: t)
    ultimately show ?thesis using strip_last [of content] by (simp add: strip_id)
  qed
  show ?thesis
    using split sd dig sr d by (simp add: label_entry_def int_str_def bind_sum_def)
qed

lemma label_entry_bare:
  assumes "list_all (\<lambda>c. \<not> is_sep c) (strip content)"
  shows "label_entry row content = Inr (row, strip content)"
proof -
  have "re_split (strip content) = [strip content]"
    using assms by (rule re_split_one)
  moreover have "strip (strip content) = strip content"
    using strip_last [of content] assms
    by (cases "strip content") (auto simp: list_all_iff intro!: strip_id dest: isspace_is_sep)
  ultimately show ?thesis by (simp add: label_entry_def)
qed

lemma load_labels_loop_step:
  "label_entry i c = Inr (k, v) \<Longrightarrow>
     load_labels_loop table ((i, c) # rest) = load_labels_loop (table(k \<mapsto> v)) rest"
  by (simp add: bind_sum_def)

lemma load_labels_loop_map_of:
  assumes "list_all2 (\<lambda>(i, c) kv. label_entry i c = Inr kv) rows kvs"
  shows "load_labels_loop table rows = Inr (table ++ map_of (rev kvs))"
  using assms
proof (induction rows kvs arbitrary: table rule: list_all2_induct)
  case Nil
  then show ?case by simp
next
  case (Cons x xs y ys)
  obtain i c where x: "x = (i, c)" by (cases x)
  obtain k v where y: "y = (k, v)" by (cases y)
  from Cons.hyps(1) have e: "label_entry i c = Inr (k, v)" by (simp add: x y)
  have step: "load_labels_loop table (x # xs) = load_labels_loop (table(k \<mapsto> v)) xs"
    unfolding x using e by (rule load_labels_loop_step)
  have ih: "load_labels_loop (table(k \<mapsto> v)) xs = Inr (table(k \<mapsto> v) ++ map_of (rev ys))"
    by (rule Cons.IH)
  have eq: "table ++ map_of (rev (y # ys)) = table(k \<mapsto> v) ++ map_of (rev ys)"
    by (rule ext) (simp add: y map_add_def split: option.splits)
  show ?case by (simp only: step ih eq)
qed

lemma load_labels_map_of:
  assumes "list_all2 (\<lambda>(i, c) kv. label_entry i c = Inr kv) (enumerate 0 lines) kvs"
  shows "load_labels lines = Inr (map_of (rev kvs))"
  using load_labels_loop_map_of [OF assms, of Map.empty] by (simp add: load_labels_def)


lemma load_sample:
  "bind_sum (labels_file sample_env) load_labels = Inr [0 \<mapsto> ''person'', 1 \<mapsto> ''cat'']"
  by (simp add: sample_env_def load_labels_def label_entry_def re_split_def strip_def is_sep_def
      isspace_def isdigit_def isdigit_char_def bind_sum_def int_str_def ascii_digit_def
      digits_value_def)

text \<open>
  C3, as the specification states it, fails on the code. For the file of the two lines
  \<open>traffic light\<close> and \<open>7\<close> the code builds the table \<open>{0: traffic, 1: 7}\<close>: the
  first line has a separator and a first field that is no number, and the code stores
  the first field, not the whole trimmed line; the second line is a number with nothing
  after it, and the code, which takes an index only from a line of two fields, stores it
  as a name under the line number. The rule of the specification gives
  \<open>{0: traffic light, 7: (empty name)}\<close>.
\<close>

theorem load_labels_counterexample:
  "load_labels [''traffic light'', ''7''] = Inr [0 \<mapsto> ''traffic'', 1 \<mapsto> ''7'']
   \<and> spec_load_labels [''traffic light'', ''7''] = [0 \<mapsto> ''traffic light'', 7 \<mapsto> '''']
   \<and> load_labels [''traffic light'', ''7''] \<noteq> Inr (spec_load_labels [''traffic light'', ''7''])"
proof -
  have code: "load_labels [''traffic light'', ''7''] = Inr [0 \<mapsto> ''traffic'', 1 \<mapsto> ''7'']"
    by (simp add: load_labels_def label_entry_def re_split_def strip_def is_sep_def
      isspace_def isdigit_def isdigit_char_def bind_sum_def)
  have spec: "spec_load_labels [''traffic light'', ''7''] = [0 \<mapsto> ''traffic light'', 7 \<mapsto> '''']"
    by (simp add: spec_load_labels_def spec_label_entry_def strip_def is_sep_def isspace_def
      ascii_digit_def digits_value_def fun_upd_twist)
  have "[0 \<mapsto> ''traffic'', 1 \<mapsto> ''7''] (0::nat) \<noteq> [0 \<mapsto> ''traffic light'', 7 \<mapsto> ''''] 0"
    by simp
  then have "[0 \<mapsto> ''traffic'', (1::nat) \<mapsto> ''7''] \<noteq> [0 \<mapsto> ''traffic light'', 7 \<mapsto> '''']"
    by (rule contrapos_nn) (erule fun_cong)
  with code spec show ?thesis by (simp only: sum.inject simp_thms)
qed

text \<open>
  C3, amended. \<open>load_labels\<close> trims each line and splits it at the first run of colons
  and whitespace.
  \<^item> If the trimmed line is a non-empty string of decimal digits \<open>d\<close>, a non-empty run
    of separators \<open>s\<close> and a remainder \<open>r\<close> that does not start with a separator, the
    entry has the value of \<open>d\<close> as its index and \<open>r\<close> as its name.
  \<^item> If the trimmed line holds no colon and no whitespace, the entry has the line number
    (counted from 0) as its index and the whole trimmed line as its name, also when the
    line is a number.
  \<^item> When every line yields an entry, the table is that of the entries in order, a later
    entry replacing an earlier one with the same index.
  \<^item> The single line \<open>2: cat\<close> yields \<open>{2: cat}\<close>, the single line \<open>dog\<close> yields
    \<open>{0: dog}\<close>.

  Nothing is said of a line with a separator whose first field is not a string of decimal
  digits.
\<close>

theorem load_labels_rule:
  "(strip content = d @ s @ r \<and> d \<noteq> [] \<and> list_all ascii_digit d \<and> s \<noteq> [] \<and>
    list_all is_sep s \<and> (r = [] \<or> \<not> is_sep (hd r))
      \<longrightarrow> label_entry row content = Inr (digits_value d, r))
   \<and> (list_all (\<lambda>c. \<not> is_sep c) (strip content)
      \<longrightarrow> label_entry row content = Inr (row, strip content))
   \<and> (list_all2 (\<lambda>(i, c) kv. label_entry i c = Inr kv) (enumerate 0 lines) kvs
      \<longrightarrow> load_labels lines = Inr (map_of (rev kvs)))
   \<and> load_labels [''2: cat''] = Inr [2 \<mapsto> ''cat'']
   \<and> load_labels [''dog''] = Inr [0 \<mapsto> ''dog'']"
proof (intro conjI impI)
  assume "strip content = d @ s @ r \<and> d \<noteq> [] \<and> list_all ascii_digit d \<and> s \<noteq> [] \<and>
    list_all is_sep s \<and> (r = [] \<or> \<not> is_sep (hd r))"
  then show "label_entry row content = Inr (digits_value d, r)"
    using label_entry_indexed by blast
next
  assume "list_all (\<lambda>c. \<not> is_sep c) (strip content)"
  then show "label_entry row content = Inr (row, strip content)"
    by (rule label_entry_bare)
next
  assume "list_all2 (\<lambda>(i, c) kv. label_entry i c = Inr kv) (enumerate 0 lines) kvs"
  then show "load_labels lines = Inr (map_of (rev kvs))"
    by (rule load_labels_map_of)
next
  show "load_labels [''2: cat''] = Inr [2 \<mapsto> ''cat'']"
    by (simp add: load_labels_def label_entry_def re_split_def strip_def is_sep_def
      isspace_def isdigit_def isdigit_char_def bind_sum_def int_str_def ascii_digit_def
      digits_value_def)
next
  show "load_labels [''dog''] = Inr [0 \<mapsto> ''dog'']"
    by (simp add: load_labels_def label_entry_def re_split_def strip_def is_sep_def
      isspace_def isdigit_def isdigit_char_def bind_sum_def)
qed

text \<open>The rule at three inputs: a line as \<open>readlines\<close> returns it, with an index, a
  colon, blanks and a name of two words; a line that is a number alone; and a file in
  which the index 1 is written twice and is also the number of the second line.\<close>

theorem load_labels_rule_witness:
  "label_entry 0 (''12 :  fire hydrant'' @ [CHR 0x0A]) = Inr (12, ''fire hydrant'')
   \<and> label_entry 4 (''  7'' @ [CHR 0x0A]) = Inr (4, ''7'')
   \<and> load_labels [''1 cat'', ''bird'', ''1 dog''] = Inr [1 \<mapsto> ''dog'']"
proof (intro conjI)
  show "label_entry 0 (''12 :  fire hydrant'' @ [CHR 0x0A]) = Inr (12, ''fire hydrant'')"
    using load_labels_rule [where content = "''12 :  fire hydrant'' @ [CHR 0x0A]"
        and d = "''12''" and s = "'' :  ''" and r = "''fire hydrant''" and row = 0]
    by (simp add: strip_def is_sep_def isspace_def ascii_digit_def digits_value_def)
next
  show "label_entry 4 (''  7'' @ [CHR 0x0A]) = Inr (4, ''7'')"
    using load_labels_rule [where content = "''  7'' @ [CHR 0x0A]" and row = 4]
    by (simp add: strip_def is_sep_def isspace_def)
next
  have "list_all2 (\<lambda>(i, c) kv. label_entry i c = Inr kv)
          (enumerate 0 [''1 cat'', ''bird'', ''1 dog''])
          [(1, ''cat''), (1, ''bird''), (1, ''dog'')]"
    by (simp add: label_entry_def re_split_def strip_def is_sep_def
      isspace_def isdigit_def isdigit_char_def bind_sum_def int_str_def ascii_digit_def
      digits_value_def)
  then show "load_labels [''1 cat'', ''bird'', ''1 dog''] = Inr [1 \<mapsto> ''dog'']"
    using load_labels_rule [where lines = "[''1 cat'', ''bird'', ''1 dog'']"
        and kvs = "[(1, ''cat''), (1, ''bird''), (1, ''dog'')]"]
    by simp
qed

subsection \<open>Detection filtering\<close>

lemma squeeze_vector_many: "length xs \<noteq> 1 \<Longrightarrow> squeeze_vector xs = Vector xs"
  by (cases xs; cases "tl xs") (auto simp: squeeze_vector_def)

lemma squeeze_boxes_many:
  "length bs \<noteq> 1 \<Longrightarrow>
     squeeze_boxes bs = Rows (map (\<lambda>(ymin, xmin, ymax, xmax). [ymin, xmin, ymax, xmax]) bs)"
  by (cases bs; cases "tl bs") (auto simp: squeeze_boxes_def split: prod.splits)

lemma detect_loop_filter:
  assumes "length (scores out) \<noteq> 1" "length (classes out) \<noteq> 1" "length (boxes out) \<noteq> 1"
    and "\<forall>i \<in> set idx. i < length (scores out) \<and> i < length (boxes out) \<and>
             i < length (classes out)"
  shows "detect_loop out thr idx acc =
           Inr (acc @ map (\<lambda>i. \<lparr>bounding_box =
                                  Vector (case boxes out ! i of
                                     (ymin, xmin, ymax, xmax) \<Rightarrow> [ymin, xmin, ymax, xmax]),
                                class_id = classes out ! i, score = scores out ! i\<rparr>)
                        (filter (\<lambda>i. thr \<le> scores out ! i) idx))"
  using assms(4)
proof (induction idx arbitrary: acc)
  case Nil
  then show ?case by simp
next
  case (Cons i rest)
  then show ?case
    using assms(1-3)
    by (simp add: bind_sum_def getitem_def ndarray_getitem_def nested_getitem_def
        get_output_tensor_0_def get_output_tensor_1_def get_output_tensor_2_def
        squeeze_vector_many squeeze_boxes_many)
qed

lemma detect_objects_filter_many:
  assumes "n = nat (int_float (count out))"
    and "length (scores out) \<noteq> 1" "length (classes out) \<noteq> 1" "length (boxes out) \<noteq> 1"
    and "n \<le> length (scores out)" "n \<le> length (boxes out)" "n \<le> length (classes out)"
  shows "detect_objects out thr =
        Inr (map (\<lambda>i. \<lparr>bounding_box =
                          Vector (case boxes out ! i of
                             (ymin, xmin, ymax, xmax) \<Rightarrow> [ymin, xmin, ymax, xmax]),
                        class_id = classes out ! i, score = scores out ! i\<rparr>)
                 (filter (\<lambda>i. thr \<le> scores out ! i) [0 ..< n]))"
proof -
  from assms have "\<forall>i \<in> set [0 ..< n]. i < length (scores out) \<and> i < length (boxes out) \<and>
      i < length (classes out)"
    by auto
  from detect_loop_filter [OF assms(2-4) this, of thr "[]"] assms(1)
  show ?thesis by (simp add: detect_objects_def get_output_tensor_3_def)
qed

text \<open>
  C2 asks, for every model output, for the records of the first \<open>count\<close> entries whose
  score is at least the threshold. The code returns them when each tensor holds no entry
  or at least two (lemma \<open>detect_objects_filter_many\<close>). When the tensors hold one
  entry, \<open>get_output_tensor\<close> squeezes the axis of the entries away with the batch
  axis: the scores are one number, \<open>scores[0]\<close> raises \<open>IndexError\<close>, and
  \<open>detect_objects\<close> returns nothing, although the entry scores 0.9 against the
  threshold 0.4. The same entry followed by a second one is returned.
\<close>

theorem detect_objects_single_entry:
  "detect_objects \<lparr>boxes = [(0.1, 0.2, 0.4, 0.8)], classes = [0], scores = [0.9], count = 1\<rparr> 0.4
     = Inl IndexError
   \<and> get_output_tensor_2 \<lparr>boxes = [(0.1, 0.2, 0.4, 0.8)], classes = [0], scores = [0.9],
                           count = 1\<rparr> = Scalar 0.9
   \<and> detect_objects \<lparr>boxes = [(0.1, 0.2, 0.4, 0.8), (0, 0, 0, 0)], classes = [0, 0],
                      scores = [0.9, 0], count = 1\<rparr> 0.4
     = Inr [\<lparr>bounding_box = Vector [0.1, 0.2, 0.4, 0.8], class_id = 0, score = 0.9\<rparr>]"
  by (simp add: detect_objects_def get_output_tensor_0_def get_output_tensor_1_def
      get_output_tensor_2_def get_output_tensor_3_def squeeze_vector_def squeeze_boxes_def
      int_float_def bind_sum_def getitem_def ndarray_getitem_def nested_getitem_def)

subsection \<open>The point reduction\<close>

lemma findPoints_box:
  "findPoints (Rows ([ymin, xmin, ymax, xmax] # rest)) =
     (if xmax = 0 \<or> ymax = 0 then Inl ZeroDivisionError
      else Inr (Some [xmin / xmax, ymin / ymax]))"
  by (simp add: bind_sum_def getitem_def truediv_def)

text \<open>
  C4. For every box \<open>[ymin, xmin, ymax, xmax]\<close> at the head of the list of rows, with
  \<open>xmax\<close> and \<open>ymax\<close> not zero, \<open>findPoints\<close> returns the point \<open>[x, y]\<close> with
  \<open>x = xmin / xmax\<close> and \<open>y = ymin / ymax\<close>, computed on the coordinates as they
  are in the list, which are the relative ones: no camera dimension enters. For the box
  \<open>(ymin = 0.1, xmin = 0.2, ymax = 0.4, xmax = 0.8)\<close> the point is \<open>(0.25, 0.25)\<close>.
  (In binary floating point the two quotients of this box are exact as well: 0.2 and 0.8
  have the same significand, as have 0.1 and 0.4.)
\<close>

theorem findPoints_ratio:
  "(xmax \<noteq> 0 \<and> ymax \<noteq> 0 \<longrightarrow>
      findPoints (Rows ([ymin, xmin, ymax, xmax] # rest))
        = Inr (Some [xmin / xmax, ymin / ymax]))
   \<and> findPoints (Rows ([0.1, 0.2, 0.4, 0.8] # rest)) = Inr (Some [0.25, 0.25])"
  by (simp add: findPoints_box del: findPoints.simps)

text \<open>The theorem at the box of the specification, followed by a second box.\<close>

theorem findPoints_ratio_witness:
  "(0.8::real) \<noteq> 0 \<and> (0.4::real) \<noteq> 0 \<and>
   findPoints (Rows [[0.1, 0.2, 0.4, 0.8], [0, 0, 1, 1]]) = Inr (Some [0.2 / 0.8, 0.1 / 0.4])"
  using findPoints_ratio [of "0.8" "0.4" "0.2" "0.1" "[[0, 0, 1, 1]]"]
  by (simp del: findPoints.simps)

text \<open>
  C7. For a list of rows that is not empty and whose first box is
  \<open>[ymin, xmin, ymax, xmax]\<close>, \<open>findPoints\<close> raises \<open>ZeroDivisionError\<close> exactly when
  \<open>xmax\<close> or \<open>ymax\<close> is zero, and it returns the point of the two quotients exactly
  when neither is zero: with both divisors non-zero the error branch is not reached.
\<close>

theorem findPoints_degenerate:
  "(findPoints (Rows ([ymin, xmin, ymax, xmax] # rest)) = Inl ZeroDivisionError)
       = (xmax = 0 \<or> ymax = 0)
   \<and> (findPoints (Rows ([ymin, xmin, ymax, xmax] # rest))
          = Inr (Some [xmin / xmax, ymin / ymax]))
       = (xmax \<noteq> 0 \<and> ymax \<noteq> 0)"
  by (simp add: findPoints_box del: findPoints.simps)

text \<open>The theorem at a box with \<open>xmax = 0\<close>, a box with \<open>ymax = 0\<close> and a box with
  neither.\<close>

theorem findPoints_degenerate_witness:
  "findPoints (Rows [[0.2, 0.1, 0.5, 0], [0, 0, 1, 1]]) = Inl ZeroDivisionError
   \<and> findPoints (Rows [[0, 0.1, 0, 0.5]]) = Inl ZeroDivisionError
   \<and> findPoints (Rows [[0.2, 0.1, 0.5, 1]]) = Inr (Some [0.1 / 1, 0.2 / 0.5])"
  using findPoints_degenerate [of "0.2" "0.1" "0.5" 0 "[[0, 0, 1, 1]]"]
        findPoints_degenerate [of 0 "0.1" 0 "0.5" "[]"]
        findPoints_degenerate [of "0.2" "0.1" "0.5" 1 "[]"]
  by (simp del: findPoints.simps)

subsection \<open>One round of the frame loop\<close>

text \<open>
  C1 asks that the first detection that clears the threshold supply the point, the label
  and the score of the message. The code takes the label and the score from that
  detection, and the point from the first box of the output tensor, whatever its score.
  On the frame below, the first entry scores 0.3 and the second 0.9, and the threshold
  is 0.4: the only detection is the second entry, whose box reduces to \<open>(1/3, 1/2)\<close>,
  and the message carries the score and the label of the second entry with the point
  \<open>(1/4, 1/4)\<close> of the first.
\<close>

theorem first_detection_evaluation:
  "detect_objects \<lparr>boxes = [(0.1, 0.2, 0.4, 0.8), (0.3, 0.3, 0.6, 0.9)], classes = [0, 1],
                    scores = [0.3, 0.9], count = 2\<rparr> 0.4
     = Inr [\<lparr>bounding_box = Vector [0.3, 0.3, 0.6, 0.9], class_id = 1, score = 0.9\<rparr>]
   \<and> findPoints (Rows [[0.3, 0.3, 0.6, 0.9]]) = Inr (Some [1 / 3, 1 / 2])
   \<and> frame_iteration f [0 \<mapsto> ''person'', 1 \<mapsto> ''cat''] 0.4
        \<lparr>boxes = [(0.1, 0.2, 0.4, 0.8), (0.3, 0.3, 0.6, 0.9)], classes = [0, 1],
         scores = [0.3, 0.9], count = 2\<rparr>
     = Inr \<lparr>Sensor_Name = ''CameraPi'', Score = f 0.9, Coordinates = Some [1 / 4, 1 / 4],
            Class_ID = ''cat''\<rparr>"
  by (simp add: frame_iteration_def detect_objects_def get_output_tensor_0_def
      get_output_tensor_1_def get_output_tensor_2_def get_output_tensor_3_def squeeze_vector_def
      squeeze_boxes_def tolist_def int_float_def bind_sum_def getitem_def ndarray_getitem_def
      nested_getitem_def truediv_def labels_getitem_def CAMERA_WIDTH_def CAMERA_HEIGHT_def
      str_score_def str_label_def upt_conv_Cons)





subsection \<open>Checks of the command line and port defaults\<close>

lemma validate_None:
  "(validate a = None) =
     (mode a = ''publish'' \<and>
      \<not> (useWebsocket a \<and> truthy_str (certificatePath a) \<and> truthy_str (privateKeyPath a)) \<and>
      \<not> (\<not> useWebsocket a \<and>
           (\<not> truthy_str (certificatePath a) \<or> \<not> truthy_str (privateKeyPath a))))"
  by (simp add: validate_def AllowedActions_def)

lemma main_rejected:
  assumes "bind_sum (labels_file env) load_labels = Inr table" "interpreter env = Inr u"
    and "validate a = Some msg"
  shows "main f env a = ([ParserError msg], Exit 2)"
  using assms by (simp add: main_def)

lemma main_configures:
  assumes "bind_sum (labels_file env) load_labels = Inr table" "interpreter env = Inr u"
    and "validate a = None"
  shows "\<exists>evs. fst (main f env a) =
           CreateClient ''rpi-camera'' # ConfigureEndpoint (host a) (port_defaults a) # evs"
  using assms by (simp add: main_def Let_def split: sum.splits prod.splits)

lemma interpreter_sample: "interpreter sample_env = Inr ()"
  by (simp add: sample_env_def)


text \<open>
  C10. Once the labels and the model are loaded, every mode other than \<open>publish\<close> ends
  \<open>main\<close> with the usage error of the mode and the exit status 2; the usage error is
  the only event, so the MQTT client has not been configured or connected and the camera
  has not been opened. The mode \<open>publish\<close> passes this check: the outcome of the checks
  then depends on the credentials alone.
\<close>

theorem mode_validation:
  "(mode a \<noteq> ''publish'' \<and> bind_sum (labels_file env) load_labels = Inr table \<and>
      interpreter env = Inr u \<longrightarrow>
      main f env a =
        ([ParserError (''Unknown --mode option '' @ mode a @ ''. Must be one of ['' @
                       [CHR 0x27] @ ''publish'' @ [CHR 0x27] @ '']'')], Exit 2))
   \<and> (mode a = ''publish'' \<longrightarrow>
        (validate a = None) =
          (\<not> (useWebsocket a \<and> truthy_str (certificatePath a) \<and> truthy_str (privateKeyPath a)) \<and>
           \<not> (\<not> useWebsocket a \<and>
             (\<not> truthy_str (certificatePath a) \<or> \<not> truthy_str (privateKeyPath a)))))"
proof (intro conjI impI)
  assume h: "mode a \<noteq> ''publish'' \<and> bind_sum (labels_file env) load_labels = Inr table \<and>
      interpreter env = Inr u"
  then have "validate a = Some (''Unknown --mode option '' @ mode a @ ''. Must be one of ['' @
                       [CHR 0x27] @ ''publish'' @ [CHR 0x27] @ '']'')"
    by (simp add: validate_def AllowedActions_def)
  with h show "main f env a =
        ([ParserError (''Unknown --mode option '' @ mode a @ ''. Must be one of ['' @
                       [CHR 0x27] @ ''publish'' @ [CHR 0x27] @ '']'')], Exit 2)"
    by (simp add: main_rejected)
next
  assume "mode a = ''publish''"
  then show "(validate a = None) =
          (\<not> (useWebsocket a \<and> truthy_str (certificatePath a) \<and> truthy_str (privateKeyPath a)) \<and>
           \<not> (\<not> useWebsocket a \<and>
             (\<not> truthy_str (certificatePath a) \<or> \<not> truthy_str (privateKeyPath a))))"
    by (simp add: validate_None)
qed

text \<open>The theorem at the mode \<open>subscribe\<close>, and at the mode \<open>publish\<close> with a
  certificate and a key.\<close>

theorem mode_validation_witness:
  "main (\<lambda>x. ''0.0'') sample_env (parser_defaults ''m'' ''l'' ''h'' ''r'' ''d'' \<lparr>mode := ''subscribe''\<rparr>)
     = ([ParserError (''Unknown --mode option subscribe. Must be one of ['' @
                       [CHR 0x27] @ ''publish'' @ [CHR 0x27] @ '']'')], Exit 2)
   \<and> validate (parser_defaults ''m'' ''l'' ''h'' ''r'' ''d''
        \<lparr>certificatePath := Some ''c.pem'', privateKeyPath := Some ''k.pem''\<rparr>) = None"
  using mode_validation [of "parser_defaults ''m'' ''l'' ''h'' ''r'' ''d'' \<lparr>mode := ''subscribe''\<rparr>"
          sample_env "[0 \<mapsto> ''person'', 1 \<mapsto> ''cat'']" "()" "\<lambda>x. ''0.0''"]
        mode_validation [of "parser_defaults ''m'' ''l'' ''h'' ''r'' ''d''
          \<lparr>certificatePath := Some ''c.pem'', privateKeyPath := Some ''k.pem''\<rparr>"]
        load_sample interpreter_sample
  by (simp add: parser_defaults_def truthy_str_def)

text \<open>
  C5. A path counts as supplied when it is a string that is not empty, which is how the
  code tests it. Once the labels and the model are loaded, \<open>main\<close> ends with a usage
  error and the exit status 2, the usage error being its only event (no connection is
  attempted), for (a) the websocket mode with a certificate path and a private-key path
  both supplied, and (b) the mode without websocket with the certificate path or the
  private-key path missing. With the mode \<open>publish\<close> the message is that of the
  credentials check that fired.
\<close>

theorem auth_validation:
  "(((useWebsocket a \<and> truthy_str (certificatePath a) \<and> truthy_str (privateKeyPath a)) \<or>
     (\<not> useWebsocket a \<and>
        (\<not> truthy_str (certificatePath a) \<or> \<not> truthy_str (privateKeyPath a)))) \<and>
    bind_sum (labels_file env) load_labels = Inr table \<and> interpreter env = Inr u
      \<longrightarrow> (\<exists>msg. main f env a = ([ParserError msg], Exit 2)))
   \<and> (mode a = ''publish'' \<and> useWebsocket a \<and> truthy_str (certificatePath a) \<and>
       truthy_str (privateKeyPath a)
      \<longrightarrow> validate a =
            Some ''X.509 cert authentication and WebSocket are mutual exclusive. Please pick one.'')
   \<and> (mode a = ''publish'' \<and> \<not> useWebsocket a \<and>
       (\<not> truthy_str (certificatePath a) \<or> \<not> truthy_str (privateKeyPath a))
      \<longrightarrow> validate a = Some ''Missing credentials for authentication.'')"
proof (intro conjI impI)
  assume h: "((useWebsocket a \<and> truthy_str (certificatePath a) \<and> truthy_str (privateKeyPath a)) \<or>
     (\<not> useWebsocket a \<and>
        (\<not> truthy_str (certificatePath a) \<or> \<not> truthy_str (privateKeyPath a)))) \<and>
    bind_sum (labels_file env) load_labels = Inr table \<and> interpreter env = Inr u"
  then have "validate a \<noteq> None" by (auto simp: validate_None)
  then obtain msg where "validate a = Some msg" by blast
  with h have "main f env a = ([ParserError msg], Exit 2)" by (simp add: main_rejected)
  then show "\<exists>msg. main f env a = ([ParserError msg], Exit 2)" ..
next
  assume "mode a = ''publish'' \<and> useWebsocket a \<and> truthy_str (certificatePath a) \<and>
       truthy_str (privateKeyPath a)"
  then show "validate a =
            Some ''X.509 cert authentication and WebSocket are mutual exclusive. Please pick one.''"
    by (simp add: validate_def AllowedActions_def)
next
  assume "mode a = ''publish'' \<and> \<not> useWebsocket a \<and>
       (\<not> truthy_str (certificatePath a) \<or> \<not> truthy_str (privateKeyPath a))"
  then show "validate a = Some ''Missing credentials for authentication.''"
    by (simp add: validate_def AllowedActions_def)
qed

text \<open>The theorem at the websocket mode with a certificate and a key, and at the
  certificate mode with a certificate and no key.\<close>

theorem auth_validation_witness:
  "main (\<lambda>x. ''0.0'') sample_env (parser_defaults ''m'' ''l'' ''h'' ''r'' ''d''
       \<lparr>certificatePath := Some ''c.pem'', privateKeyPath := Some ''k.pem'', useWebsocket := True\<rparr>)
     = ([ParserError ''X.509 cert authentication and WebSocket are mutual exclusive. Please pick one.''],
        Exit 2)
   \<and> main (\<lambda>x. ''0.0'') sample_env (parser_defaults ''m'' ''l'' ''h'' ''r'' ''d''
       \<lparr>certificatePath := Some ''c.pem''\<rparr>)
     = ([ParserError ''Missing credentials for authentication.''], Exit 2)"
proof -
  let ?a = "parser_defaults ''m'' ''l'' ''h'' ''r'' ''d''
       \<lparr>certificatePath := Some ''c.pem'', privateKeyPath := Some ''k.pem'', useWebsocket := True\<rparr>"
  let ?b = "parser_defaults ''m'' ''l'' ''h'' ''r'' ''d'' \<lparr>certificatePath := Some ''c.pem''\<rparr>"
  let ?t = "[0 \<mapsto> ''person'', 1 \<mapsto> ''cat'']"
  have va: "validate ?a =
      Some ''X.509 cert authentication and WebSocket are mutual exclusive. Please pick one.''"
    using auth_validation [of ?a] by (simp add: parser_defaults_def truthy_str_def)
  have vb: "validate ?b = Some ''Missing credentials for authentication.''"
    using auth_validation [of ?b] by (simp add: parser_defaults_def truthy_str_def)
  obtain m1 where m1: "main (\<lambda>x. ''0.0'') sample_env ?a = ([ParserError m1], Exit 2)"
    using auth_validation [of ?a sample_env ?t "()" "\<lambda>x. ''0.0''"] load_sample interpreter_sample
    by (auto simp: parser_defaults_def truthy_str_def)
  obtain m2 where m2: "main (\<lambda>x. ''0.0'') sample_env ?b = ([ParserError m2], Exit 2)"
    using auth_validation [of ?b sample_env ?t "()" "\<lambda>x. ''0.0''"] load_sample interpreter_sample
    by (auto simp: parser_defaults_def truthy_str_def)
  from m1 va load_sample interpreter_sample
  have "main (\<lambda>x. ''0.0'') sample_env ?a =
      ([ParserError ''X.509 cert authentication and WebSocket are mutual exclusive. Please pick one.''],
        Exit 2)"
    by (simp add: main_def)
  moreover from m2 vb load_sample interpreter_sample
  have "main (\<lambda>x. ''0.0'') sample_env ?b =
      ([ParserError ''Missing credentials for authentication.''], Exit 2)"
    by (simp add: main_def)
  ultimately show ?thesis by simp
qed

text \<open>
  C8, as stated, fails on the code: the port 0 given on the command line is not used
  unchanged. In the websocket mode it is replaced by 443.
\<close>

theorem port_override_counterexample:
  "port (parser_defaults ''m'' ''l'' ''h'' ''r'' ''d'' \<lparr>port := Some 0, useWebsocket := True\<rparr>)
     = Some 0
   \<and> port_defaults
        (parser_defaults ''m'' ''l'' ''h'' ''r'' ''d'' \<lparr>port := Some 0, useWebsocket := True\<rparr>)
     = Some 443"
  by (simp add: parser_defaults_def port_defaults_def truthy_int_def)

text \<open>
  C8, amended. With no port given, or with the port 0 given, the port is 443 in the
  websocket mode and 8883 in the certificate mode; a port other than 0 that was given is
  used unchanged in either mode. When the checks pass, this port is the one the endpoint
  of the MQTT client is configured with.
\<close>

theorem port_defaults_policy:
  "(port a = None \<or> port a = Some 0 \<longrightarrow>
      port_defaults a = Some (if useWebsocket a then 443 else 8883))
   \<and> (\<forall>p. port a = Some p \<and> p \<noteq> 0 \<longrightarrow> port_defaults a = Some p)
   \<and> (validate a = None \<and> bind_sum (labels_file env) load_labels = Inr table \<and>
       interpreter env = Inr u
      \<longrightarrow> (\<exists>evs. fst (main f env a) =
             CreateClient ''rpi-camera'' # ConfigureEndpoint (host a) (port_defaults a) # evs))"
  using main_configures [of env table u a f]
  by (auto simp: port_defaults_def truthy_int_def)

text \<open>The theorem at the defaults, at the websocket mode, and at the port 1883
  given.\<close>

theorem port_defaults_policy_witness:
  "port_defaults (parser_defaults ''m'' ''l'' ''h'' ''r'' ''d'') = Some 8883
   \<and> port_defaults (parser_defaults ''m'' ''l'' ''h'' ''r'' ''d'' \<lparr>useWebsocket := True\<rparr>) = Some 443
   \<and> port_defaults (parser_defaults ''m'' ''l'' ''h'' ''r'' ''d'' \<lparr>port := Some 1883\<rparr>) = Some 1883
   \<and> (\<exists>evs. fst (main (\<lambda>x. ''0.0'') sample_env (parser_defaults ''m'' ''l'' ''h'' ''r'' ''d''
                \<lparr>certificatePath := Some ''c.pem'', privateKeyPath := Some ''k.pem''\<rparr>))
          = CreateClient ''rpi-camera'' # ConfigureEndpoint ''h'' (Some 8883) # evs)"
proof -
  let ?a = "parser_defaults ''m'' ''l'' ''h'' ''r'' ''d''"
  let ?c = "?a \<lparr>certificatePath := Some ''c.pem'', privateKeyPath := Some ''k.pem''\<rparr>"
  have 1: "port_defaults ?a = Some 8883"
    using port_defaults_policy [of ?a] by (simp add: parser_defaults_def)
  have 2: "port_defaults (?a \<lparr>useWebsocket := True\<rparr>) = Some 443"
    using port_defaults_policy [of "?a \<lparr>useWebsocket := True\<rparr>"]
    by (simp add: parser_defaults_def)
  have 3: "port_defaults (?a \<lparr>port := Some 1883\<rparr>) = Some 1883"
    using port_defaults_policy [of "?a \<lparr>port := Some 1883\<rparr>"]
    by (simp add: parser_defaults_def)
  have v: "validate ?c = None"
    by (simp add: validate_None parser_defaults_def truthy_str_def)
  have p: "port_defaults ?c = Some 8883"
    using port_defaults_policy [of ?c] by (simp add: parser_defaults_def)
  have h: "host ?c = ''h''"
    by (simp add: parser_defaults_def)
  have 4: "\<exists>evs. fst (main (\<lambda>x. ''0.0'') sample_env ?c) =
             CreateClient ''rpi-camera'' # ConfigureEndpoint ''h'' (Some 8883) # evs"
    using port_defaults_policy [of ?c sample_env "[0 \<mapsto> ''person'', 1 \<mapsto> ''cat'']" "()"
        "\<lambda>x. ''0.0''"] v load_sample interpreter_sample
    by (simp only: p h)
  from 1 2 3 4 show ?thesis by simp
qed

end
